theory Spec2Isabelle
  imports Complex_Main
begin

section \<open>The shell wrapper \<open>run_jobs.sh\<close>\<close>

text \<open>
  The wrapper reads its positional parameters, the file system (whether \<open>cd\<close> succeeds,
  whether \<open>[ -f path ]\<close> holds) and the exit status of the one Python script it starts.
  These are the fields of \<open>shell_env\<close>. Its observable behaviour is the sequence of
  things it does (\<open>event\<close>) and its exit status. Sourcing \<open>.env\<close> and \<open>activate\<close> is
  recorded as an event; the content of these files is outside the repository, and the
  only thing the wrapper reads back from them is \<open>$VIRTUAL_ENV\<close>.
\<close>

record shell_env =
  script_name :: string
  args :: "string list"
  cd_succeeds :: "string \<Rightarrow> bool"
  is_file :: "string \<Rightarrow> bool"
  python_exit :: "string \<Rightarrow> nat"
  VIRTUAL_ENV :: string

datatype event =
    Stdout string
  | Stderr string
  | Chdir string
  | Source string
  | Python string
  | Deactivate

definition PROJECT_DIR :: "string \<Rightarrow> string" where
  "PROJECT_DIR USER_NAME = ''/home/'' @ USER_NAME @ ''/Projects/rss-personal-radio''"

definition activate_path :: "string \<Rightarrow> string" where
  "activate_path USER_NAME = ''/home/'' @ USER_NAME @ ''/.pyenv/versions/.venv/bin/activate''"

text \<open>Steps 4 to 9 of the script, after the change of directory has succeeded.\<close>

definition load_dotenv :: "shell_env \<Rightarrow> event list" where
  "load_dotenv env = (if is_file env ''.env'' then [Source ''.env''] else [])"

definition run_python_jobs :: "shell_env \<Rightarrow> event list" where
  "run_python_jobs env =
     [Stdout ''Running daily_intro.py...'', Python ''daily_intro.py'']
     @ (if python_exit env ''daily_intro.py'' \<noteq> 0
        then [Stderr ''daily_intro.py encountered an error.''] else [])
     @ (if VIRTUAL_ENV env \<noteq> [] then [Deactivate] else [])
     @ [Stdout ''Jobs completed.'']"

definition run_jobs :: "shell_env \<Rightarrow> event list \<times> nat" where
  "run_jobs env =
     (if length (args env) < 1 then
        ([Stdout (''Usage: '' @ script_name env @ '' <username>'')], 1)
      else
        let USER_NAME = hd (args env) in
        if \<not> cd_succeeds env (PROJECT_DIR USER_NAME) then
          ([Stdout (''Project directory not found at '' @ PROJECT_DIR USER_NAME @ ''; exiting.'')], 1)
        else if is_file env (activate_path USER_NAME) then
          (Chdir (PROJECT_DIR USER_NAME) # load_dotenv env
             @ [Source (activate_path USER_NAME)] @ run_python_jobs env, 0)
        else
          (Chdir (PROJECT_DIR USER_NAME) # load_dotenv env
             @ [Stdout (''Could not find virtual environment at '' @ activate_path USER_NAME @ ''.''),
                Stdout ''Please adjust the path as needed.''], 1))"

text \<open>What an observer reads off a run: the scripts started, and the lines written to
  standard output and to standard error, each in order.\<close>

fun scripts_of :: "event list \<Rightarrow> string list" where
  "scripts_of [] = []"
| "scripts_of (Python s # es) = s # scripts_of es"
| "scripts_of (_ # es) = scripts_of es"

fun stdout_of :: "event list \<Rightarrow> string list" where
  "stdout_of [] = []"
| "stdout_of (Stdout s # es) = s # stdout_of es"
| "stdout_of (_ # es) = stdout_of es"

fun stderr_of :: "event list \<Rightarrow> string list" where
  "stderr_of [] = []"
| "stderr_of (Stderr s # es) = s # stderr_of es"
| "stderr_of (_ # es) = stderr_of es"

definition exit_status :: "shell_env \<Rightarrow> nat" where
  "exit_status env = snd (run_jobs env)"

definition python_runs :: "shell_env \<Rightarrow> string list" where
  "python_runs env = scripts_of (fst (run_jobs env))"

definition stdout_lines :: "shell_env \<Rightarrow> string list" where
  "stdout_lines env = stdout_of (fst (run_jobs env))"

definition stderr_lines :: "shell_env \<Rightarrow> string list" where
  "stderr_lines env = stderr_of (fst (run_jobs env))"

text \<open>The three checks of the wrapper: an argument, the project directory, the activation file.\<close>

definition setup_ok :: "shell_env \<Rightarrow> bool" where
  "setup_ok env \<longleftrightarrow>
     args env \<noteq> [] \<and> cd_succeeds env (PROJECT_DIR (hd (args env)))
     \<and> is_file env (activate_path (hd (args env)))"

text \<open>Two concrete environments: a complete setup whose Python script fails with status 1,
  and an invocation without a username.\<close>

definition env_python_fails :: shell_env where
  "env_python_fails =
     \<lparr>script_name = ''./run_jobs.sh'', args = [''standard''],
      cd_succeeds = (\<lambda>p. p = ''/home/standard/Projects/rss-personal-radio''),
      is_file = (\<lambda>p. p = ''/home/standard/.pyenv/versions/.venv/bin/activate''),
      python_exit = (\<lambda>s. 1), VIRTUAL_ENV = ''/home/standard/.pyenv/versions/.venv''\<rparr>"

definition env_no_username :: shell_env where
  "env_no_username =
     \<lparr>script_name = ''./run_jobs.sh'', args = [],
      cd_succeeds = (\<lambda>p. True), is_file = (\<lambda>p. True),
      python_exit = (\<lambda>s. 0), VIRTUAL_ENV = []\<rparr>"

section \<open>The Effects Processor (\<open>vocoder.ipynb\<close>)\<close>

subsection \<open>Arrays and the numeric library calls of the notebook\<close>

text \<open>
  A numpy array is its shape and its elements in row-major order. Samples are real
  numbers: the rounding of machine floats is not part of this model. Exceptions are values of
  \<open>error\<close>; \<open>LibraryError\<close> stands for whatever a library outside the repository raises.
\<close>

datatype error = ZeroDivisionError | TypeError | ValueError | LibraryError string

record ndarray =
  nd_shape :: "nat list"
  nd_data :: "real list"

definition ndim :: "ndarray \<Rightarrow> nat" where
  "ndim a = length (nd_shape a)"

text \<open>A one-dimensional array, as \<open>librosa.load\<close> returns for mono audio.\<close>

definition array1 :: "real list \<Rightarrow> ndarray" where
  "array1 xs = \<lparr>nd_shape = [length xs], nd_data = xs\<rparr>"

text \<open>\<open>len(a)\<close>: the size of the first axis; a zero-dimensional array has no length.\<close>

definition len :: "ndarray \<Rightarrow> error + nat" where
  "len a = (case nd_shape a of [] \<Rightarrow> Inl TypeError | n # _ \<Rightarrow> Inr n)"

text \<open>\<open>np.linspace(start, stop, num, endpoint=False)\<close>: \<open>num\<close> points with step
  \<open>(stop - start) / num\<close>, the stop value left out.\<close>

definition linspace :: "real \<Rightarrow> real \<Rightarrow> nat \<Rightarrow> real list" where
  "linspace start stop num =
     map (\<lambda>i. real i * ((stop - start) / real num) + start) [0..<num]"

text \<open>
  \<open>a * c\<close> for an array \<open>a\<close> and a one-dimensional \<open>c\<close>: numpy aligns \<open>c\<close> with the last
  axis of \<open>a\<close>; the two sizes must agree or one of them must be 1.
\<close>

definition multiply :: "ndarray \<Rightarrow> real list \<Rightarrow> error + ndarray" where
  "multiply a c =
     (case nd_shape a of
        [] \<Rightarrow> Inr \<lparr>nd_shape = [length c],
                  nd_data = concat (map (\<lambda>v. map (\<lambda>w. v * w) c) (nd_data a))\<rparr>
      | _ # _ \<Rightarrow>
          let m = last (nd_shape a); k = length c in
          if m = k then
            Inr (a\<lparr>nd_data := map (\<lambda>j. nd_data a ! j * c ! (j mod k)) [0..<length (nd_data a)]\<rparr>)
          else if k = 1 then
            Inr (a\<lparr>nd_data := map (\<lambda>v. v * c ! 0) (nd_data a)\<rparr>)
          else if m = 1 then
            Inr \<lparr>nd_shape = butlast (nd_shape a) @ [k],
                 nd_data = concat (map (\<lambda>v. map (\<lambda>w. v * w) c) (nd_data a))\<rparr>
          else Inl ValueError)"

text \<open>\<open>np.expand_dims(a, axis=0)\<close> and \<open>np.squeeze(a, axis=0)\<close>.\<close>

definition expand_dims :: "ndarray \<Rightarrow> ndarray" where
  "expand_dims a = a\<lparr>nd_shape := 1 # nd_shape a\<rparr>"

definition squeeze :: "ndarray \<Rightarrow> error + ndarray" where
  "squeeze a =
     (case nd_shape a of
        [] \<Rightarrow> Inl ValueError
      | n # rest \<Rightarrow> if n = 1 then Inr (a\<lparr>nd_shape := rest\<rparr>) else Inl ValueError)"

subsection \<open>Configuration: the constants of the first cell\<close>

record config =
  DO_PITCH_SHIFT :: bool
  PITCH_SHIFT_STEPS :: real
  DO_RING_MOD :: bool
  RING_MOD_FREQ :: real
  DO_BANDPASS :: bool
  BANDPASS_LOW :: real
  BANDPASS_HIGH :: real
  DO_FLANGER :: bool
  FLANGER_RATE :: real
  FLANGER_DEPTH :: real
  FLANGER_CENTRE_DELAY_MS :: real
  FLANGER_FEEDBACK :: real
  FLANGER_MIX :: real
  DO_PHASER :: bool
  PHASER_RATE :: real
  PHASER_DEPTH :: real
  PHASER_MIX :: real
  OUTPUT_FILE :: string

definition notebook_config :: config where
  "notebook_config =
     \<lparr>DO_PITCH_SHIFT = False, PITCH_SHIFT_STEPS = - 3,
      DO_RING_MOD = False, RING_MOD_FREQ = 400,
      DO_BANDPASS = False, BANDPASS_LOW = 300, BANDPASS_HIGH = 5000,
      DO_FLANGER = True, FLANGER_RATE = 1, FLANGER_DEPTH = 0.8,
      FLANGER_CENTRE_DELAY_MS = 3.0, FLANGER_FEEDBACK = 0.5, FLANGER_MIX = 0.2,
      DO_PHASER = True, PHASER_RATE = 1.5, PHASER_DEPTH = 0.7, PHASER_MIX = 0.5,
      OUTPUT_FILE = ''corporate_voice.wav''\<rparr>"

subsection \<open>The ring-modulation cell\<close>

text \<open>The body of the \<open>if DO_RING_MOD\<close> branch, on the current waveform and the sample rate.\<close>

definition ring_modulation :: "config \<Rightarrow> ndarray \<Rightarrow> int \<Rightarrow> error + ndarray" where
  "ring_modulation cfg y_current sr =
     (case len y_current of
        Inl e \<Rightarrow> Inl e
      | Inr n \<Rightarrow>
          if sr = 0 then Inl ZeroDivisionError
          else
            let duration = real n / real_of_int sr;
                t = linspace 0 duration n;
                carrier = map (\<lambda>x. sin (2 * pi * RING_MOD_FREQ cfg * x)) t
            in multiply y_current carrier)"

subsection \<open>Libraries outside the repository\<close>

text \<open>
  The pitch shifter (librosa), the filter design (scipy's \<open>butter\<close>), the effect plugins
  (pedalboard) and the decoder (\<open>librosa.load\<close>) are not code of this repository. They
  are parameters of the model: any function of the right type, which may raise. A plugin
  is the constructor call the notebook makes, with the arguments it passes.
\<close>

datatype plugin =
    Chorus real real real real real
  | Phaser real real real

record libs =
  librosa_load :: "string \<Rightarrow> error + ndarray \<times> int"
  pitch_shift :: "ndarray \<Rightarrow> int \<Rightarrow> real \<Rightarrow> nat \<Rightarrow> string \<Rightarrow> error + ndarray"
  butter :: "nat \<Rightarrow> real list \<Rightarrow> string \<Rightarrow> error + real list \<times> real list"
  Pedalboard :: "plugin list \<Rightarrow> ndarray \<Rightarrow> int \<Rightarrow> error + ndarray"

text \<open>
  \<open>scipy.signal.lfilter(b, a, x)\<close> is the direct-form filter of the difference equation
  \<open>a[0]*y[n] = b[0]*x[n] + ... + b[M]*x[n-M] - a[1]*y[n-1] - ... - a[N]*y[n-N]\<close>
  with zero initial state, run along the last axis. \<open>lfilter_run\<close> carries the inputs
  and the outputs seen so far, most recent first. Empty coefficient lists, a leading
  \<open>a\<close> coefficient of zero and a zero-dimensional input are rejected.
\<close>

fun dot :: "real list \<Rightarrow> real list \<Rightarrow> real" where
  "dot (u # us) (v # vs) = u * v + dot us vs"
| "dot _ _ = 0"

fun lfilter_run :: "real list \<Rightarrow> real list \<Rightarrow> real list \<Rightarrow> real list \<Rightarrow> real list \<Rightarrow> real list" where
  "lfilter_run b a xh yh [] = []"
| "lfilter_run b a xh yh (x # xs) =
     (let yn = (dot b (x # xh) - dot (tl a) yh) / hd a
      in yn # lfilter_run b a (x # xh) (yn # yh) xs)"

definition lfilter_1d :: "real list \<Rightarrow> real list \<Rightarrow> real list \<Rightarrow> real list" where
  "lfilter_1d b a xs = lfilter_run b a [] [] xs"

function chunks :: "nat \<Rightarrow> 'a list \<Rightarrow> 'a list list" where
  "chunks m xs = (if m = 0 \<or> xs = [] then [] else take m xs # chunks m (drop m xs))"
  by pat_completeness auto
termination
  by (relation "measure (\<lambda>(m, xs). length xs)") auto

declare chunks.simps [simp del]

definition lfilter :: "real list \<Rightarrow> real list \<Rightarrow> ndarray \<Rightarrow> error + ndarray" where
  "lfilter b a x =
     (if b = [] \<or> a = [] \<or> hd a = 0 \<or> nd_shape x = [] then Inl ValueError
      else Inr (x\<lparr>nd_data := concat (map (lfilter_1d b a) (chunks (last (nd_shape x)) (nd_data x)))\<rparr>))"

subsection \<open>\<open>bandpass_filter\<close> and the effect cells\<close>

definition bandpass_filter :: "libs \<Rightarrow> ndarray \<Rightarrow> real \<Rightarrow> real \<Rightarrow> int \<Rightarrow> nat \<Rightarrow> error + ndarray" where
  "bandpass_filter L dat lowcut highcut fs order =
     (let nyquist = 0.5 * real_of_int fs in
      if nyquist = 0 then Inl ZeroDivisionError
      else
        let low = lowcut / nyquist;
            high = highcut / nyquist
        in case butter L order [low, high] ''band'' of
             Inl e \<Rightarrow> Inl e
           | Inr (b, a) \<Rightarrow> lfilter b a dat)"

text \<open>The bodies of the other \<open>if\<close> branches. The flanger and the phaser add a channel
  axis, run a board holding the one plugin at the sample rate, and remove the axis again.\<close>

definition pitch_shifting :: "libs \<Rightarrow> config \<Rightarrow> ndarray \<Rightarrow> int \<Rightarrow> error + ndarray" where
  "pitch_shifting L cfg y_current sr =
     pitch_shift L y_current sr (PITCH_SHIFT_STEPS cfg) 12 ''kaiser_best''"

definition bandpass :: "libs \<Rightarrow> config \<Rightarrow> ndarray \<Rightarrow> int \<Rightarrow> error + ndarray" where
  "bandpass L cfg y_current sr =
     bandpass_filter L y_current (BANDPASS_LOW cfg) (BANDPASS_HIGH cfg) sr 4"

definition flanger :: "libs \<Rightarrow> config \<Rightarrow> ndarray \<Rightarrow> int \<Rightarrow> error + ndarray" where
  "flanger L cfg y_current sr =
     (let y_2d = expand_dims y_current;
          flanger_plugin = Chorus (FLANGER_RATE cfg) (FLANGER_DEPTH cfg)
            (FLANGER_CENTRE_DELAY_MS cfg) (FLANGER_FEEDBACK cfg) (FLANGER_MIX cfg)
      in case Pedalboard L [flanger_plugin] y_2d sr of
           Inl e \<Rightarrow> Inl e
         | Inr processed \<Rightarrow> squeeze processed)"

definition phaser :: "libs \<Rightarrow> config \<Rightarrow> ndarray \<Rightarrow> int \<Rightarrow> error + ndarray" where
  "phaser L cfg y_current sr =
     (let y_2d = expand_dims y_current
      in case Pedalboard L [Phaser (PHASER_RATE cfg) (PHASER_DEPTH cfg) (PHASER_MIX cfg)] y_2d sr of
           Inl e \<Rightarrow> Inl e
         | Inr processed \<Rightarrow> squeeze processed)"

subsection \<open>The notebook, cell by cell\<close>

text \<open>
  The global variables of the notebook are the fields of \<open>state\<close>; \<open>st_written\<close> collects
  the calls to \<open>sf.write\<close> (file name, samples, sample rate). Each cell takes the state
  and returns the new one, or the exception that stops the run. The \<open>print\<close> calls are
  left out.
\<close>

record state =
  st_y :: ndarray
  st_sr :: int
  st_y_current :: ndarray
  st_written :: "(string \<times> ndarray \<times> int) list"

definition input_path :: string where
  "input_path = ''./temp/personal_daily_intro/dummy.mp3''"

definition load_cell :: "libs \<Rightarrow> error + state" where
  "load_cell L =
     (case librosa_load L input_path of
        Inl e \<Rightarrow> Inl e
      | Inr (y, sr) \<Rightarrow> Inr \<lparr>st_y = y, st_sr = sr, st_y_current = y, st_written = []\<rparr>)"

text \<open>An effect cell: \<open>if\<close> its toggle is set, \<open>y_current\<close> becomes the effect's result,
  \<open>else\<close> the cell only prints that it skips.\<close>

definition pitch_shift_cell :: "libs \<Rightarrow> config \<Rightarrow> state \<Rightarrow> error + state" where
  "pitch_shift_cell L cfg st =
     (if DO_PITCH_SHIFT cfg then
        case pitch_shifting L cfg (st_y_current st) (st_sr st) of
          Inl e \<Rightarrow> Inl e
        | Inr v \<Rightarrow> Inr (st\<lparr>st_y_current := v\<rparr>)
      else Inr st)"

definition ring_mod_cell :: "config \<Rightarrow> state \<Rightarrow> error + state" where
  "ring_mod_cell cfg st =
     (if DO_RING_MOD cfg then
        case ring_modulation cfg (st_y_current st) (st_sr st) of
          Inl e \<Rightarrow> Inl e
        | Inr v \<Rightarrow> Inr (st\<lparr>st_y_current := v\<rparr>)
      else Inr st)"

definition bandpass_cell :: "libs \<Rightarrow> config \<Rightarrow> state \<Rightarrow> error + state" where
  "bandpass_cell L cfg st =
     (if DO_BANDPASS cfg then
        case bandpass L cfg (st_y_current st) (st_sr st) of
          Inl e \<Rightarrow> Inl e
        | Inr v \<Rightarrow> Inr (st\<lparr>st_y_current := v\<rparr>)
      else Inr st)"

definition flanger_cell :: "libs \<Rightarrow> config \<Rightarrow> state \<Rightarrow> error + state" where
  "flanger_cell L cfg st =
     (if DO_FLANGER cfg then
        case flanger L cfg (st_y_current st) (st_sr st) of
          Inl e \<Rightarrow> Inl e
        | Inr v \<Rightarrow> Inr (st\<lparr>st_y_current := v\<rparr>)
      else Inr st)"

definition phaser_cell :: "libs \<Rightarrow> config \<Rightarrow> state \<Rightarrow> error + state" where
  "phaser_cell L cfg st =
     (if DO_PHASER cfg then
        case phaser L cfg (st_y_current st) (st_sr st) of
          Inl e \<Rightarrow> Inl e
        | Inr v \<Rightarrow> Inr (st\<lparr>st_y_current := v\<rparr>)
      else Inr st)"

definition write_cell :: "config \<Rightarrow> state \<Rightarrow> error + state" where
  "write_cell cfg st =
     Inr (st\<lparr>st_written := st_written st @ [(OUTPUT_FILE cfg, st_y_current st, st_sr st)]\<rparr>)"

text \<open>Running one cell after the other; an exception ends the run.\<close>

definition and_then :: "error + 'a \<Rightarrow> ('a \<Rightarrow> error + 'b) \<Rightarrow> error + 'b" where
  "and_then r cell = (case r of Inl e \<Rightarrow> Inl e | Inr st \<Rightarrow> cell st)"

definition effect_cells :: "libs \<Rightarrow> config \<Rightarrow> state \<Rightarrow> error + state" where
  "effect_cells L cfg st =
     and_then (and_then (and_then (and_then
       (pitch_shift_cell L cfg st)
       (ring_mod_cell cfg))
       (bandpass_cell L cfg))
       (flanger_cell L cfg))
       (phaser_cell L cfg)"

definition vocoder :: "libs \<Rightarrow> config \<Rightarrow> error + state" where
  "vocoder L cfg = and_then (and_then (load_cell L) (effect_cells L cfg)) (write_cell cfg)"

subsection \<open>The chain of effects as the specification describes it\<close>

text \<open>
  The specification speaks of a fixed order of effects, each applied when its toggle is
  set and skipped otherwise. \<open>apply_enabled\<close> runs such a table of toggles and effects
  from left to right on a waveform; \<open>effects_table\<close> is the table with the five effects
  in the order pitch shift, ring modulation, bandpass, flanger, phaser.
\<close>

fun apply_enabled :: "(bool \<times> (ndarray \<Rightarrow> int \<Rightarrow> error + ndarray)) list \<Rightarrow> int \<Rightarrow> ndarray \<Rightarrow> error + ndarray" where
  "apply_enabled [] sr w = Inr w"
| "apply_enabled ((enabled, effect) # rest) sr w =
     (if enabled then
        case effect w sr of
          Inl e \<Rightarrow> Inl e
        | Inr w' \<Rightarrow> apply_enabled rest sr w'
      else apply_enabled rest sr w)"

definition effects_table :: "libs \<Rightarrow> config \<Rightarrow> (bool \<times> (ndarray \<Rightarrow> int \<Rightarrow> error + ndarray)) list" where
  "effects_table L cfg =
     [(DO_PITCH_SHIFT cfg, pitch_shifting L cfg),
      (DO_RING_MOD cfg, ring_modulation cfg),
      (DO_BANDPASS cfg, bandpass L cfg),
      (DO_FLANGER cfg, flanger L cfg),
      (DO_PHASER cfg, phaser L cfg)]"

text \<open>The contract of a library call that returns an array with as many axes as it was given.\<close>

definition keeps_ndim :: "libs \<Rightarrow> bool" where
  "keeps_ndim L \<longleftrightarrow>
     (\<forall>y sr n bins res v. pitch_shift L y sr n bins res = Inr v \<longrightarrow> ndim v = ndim y)
     \<and> (\<forall>ps x sr v. Pedalboard L ps x sr = Inr v \<longrightarrow> ndim v = ndim x)"

text \<open>Stand-ins for the libraries, to run the model on concrete inputs: a decoder that
  returns four samples at 8 Hz, a pitch shifter and a board that return their input, and a
  filter design that returns a two-tap moving average.\<close>

definition sample_libs :: libs where
  "sample_libs =
     \<lparr>librosa_load = (\<lambda>path. Inr (array1 [1, 2, 3, 4], 8)),
      pitch_shift = (\<lambda>y sr n bins res. Inr y),
      butter = (\<lambda>order Wn btype. Inr ([1/2, 1/2], [1])),
      Pedalboard = (\<lambda>ps x sr. Inr x)\<rparr>"

text \<open>The table of effects run on the notebook's state: the sample rate and the current
  waveform are read from the state, and the result becomes the current waveform.\<close>

definition on_state :: "(bool \<times> (ndarray \<Rightarrow> int \<Rightarrow> error + ndarray)) list \<Rightarrow> state \<Rightarrow> error + state" where
  "on_state tbl st =
     (case apply_enabled tbl (st_sr st) (st_y_current st) of
        Inl e \<Rightarrow> Inl e
      | Inr w \<Rightarrow> Inr (st\<lparr>st_y_current := w\<rparr>))"

text \<open>A state and a configuration to run the ring-modulation cell on: two samples at
  1600 Hz, with the notebook's carrier frequency of 400 Hz.\<close>

definition ring_state :: state where
  "ring_state =
     \<lparr>st_y = array1 [1, 2], st_sr = 1600, st_y_current = array1 [1, 2], st_written = []\<rparr>"

definition ring_config :: config where
  "ring_config = notebook_config\<lparr>DO_RING_MOD := True\<rparr>"

text \<open>The notebook's configuration with every effect switched off.\<close>

definition all_off_config :: config where
  "all_off_config = notebook_config\<lparr>DO_FLANGER := False, DO_PHASER := False\<rparr>"

text \<open>The state the notebook ends in on the stand-in libraries with its own configuration.\<close>

definition sample_final :: state where
  "sample_final =
     \<lparr>st_y = array1 [1, 2, 3, 4], st_sr = 8, st_y_current = array1 [1, 2, 3, 4],
      st_written = [(''corporate_voice.wav'', array1 [1, 2, 3, 4], 8)]\<rparr>"

subsection \<open>The output file\<close>

text \<open>
  \<open>sf.write(OUTPUT_FILE, y_current, sr)\<close> is given no subtype, and the file name ends in
  \<open>.wav\<close>: the soundfile library (outside the repository) then stores signed 16-bit PCM.
  \<open>pcm16\<close> is its conversion of one sample with clipping switched on, as soundfile does:
  the sample is scaled by \<open>2^31\<close>, clipped to the 32-bit range, rounded, and its upper
  16 bits are kept. \<open>wav_content\<close> is what a successful write leaves in the file, and
  \<open>pcm16_value\<close> is the sample value a stored integer stands for.
\<close>

record wav_file =
  wav_samplerate :: int
  wav_subtype :: string
  wav_frames :: "int list"

definition pcm16 :: "real \<Rightarrow> int" where
  "pcm16 x =
     (let scaled_value = x * 2147483648 in
      if scaled_value \<ge> 2147483647 then 32767
      else if scaled_value \<le> - 2147483648 then - 32768
      else round scaled_value div 65536)"

definition pcm16_value :: "int \<Rightarrow> real" where
  "pcm16_value s = real_of_int s / 32768"

definition wav_content :: "ndarray \<Rightarrow> int \<Rightarrow> wav_file" where
  "wav_content dat samplerate =
     \<lparr>wav_samplerate = samplerate, wav_subtype = ''PCM_16'',
      wav_frames = map pcm16 (nd_data dat)\<rparr>"

definition file_samples :: "wav_file \<Rightarrow> real list" where
  "file_samples w = map pcm16_value (wav_frames w)"

text \<open>The files a run leaves behind: one per recorded call of \<open>sf.write\<close>.\<close>

definition output_files :: "state \<Rightarrow> (string \<times> wav_file) list" where
  "output_files st =
     map (\<lambda>(file, dat, samplerate). (file, wav_content dat samplerate)) (st_written st)"

text \<open>A decoder that returns three samples at 44100 Hz, the first of them very quiet
  (\<open>2^-17\<close>), and the state the notebook ends in on it with every effect switched off.\<close>

definition quiet_libs :: libs where
  "quiet_libs =
     \<lparr>librosa_load = (\<lambda>path. Inr (array1 [1 / 131072, 1 / 2, - 1 / 4], 44100)),
      pitch_shift = (\<lambda>y sr n bins res. Inr y),
      butter = (\<lambda>order Wn btype. Inr ([1/2, 1/2], [1])),
      Pedalboard = (\<lambda>ps x sr. Inr x)\<rparr>"

definition quiet_final :: state where
  "quiet_final =
     \<lparr>st_y = array1 [1 / 131072, 1 / 2, - 1 / 4], st_sr = 44100,
      st_y_current = array1 [1 / 131072, 1 / 2, - 1 / 4],
      st_written = [(''corporate_voice.wav'', array1 [1 / 131072, 1 / 2, - 1 / 4], 44100)]\<rparr>"

section \<open>Properties of the wrapper\<close>

lemma scripts_of_append: "scripts_of (xs @ ys) = scripts_of xs @ scripts_of ys"
  by (induction xs rule: scripts_of.induct) simp_all

lemma stdout_of_append: "stdout_of (xs @ ys) = stdout_of xs @ stdout_of ys"
  by (induction xs rule: stdout_of.induct) simp_all

lemma stderr_of_append: "stderr_of (xs @ ys) = stderr_of xs @ stderr_of ys"
  by (induction xs rule: stderr_of.induct) simp_all

lemma run_python_jobs_pythons: "scripts_of (run_python_jobs env) = [''daily_intro.py'']"
  by (simp add: run_python_jobs_def scripts_of_append)

lemma load_dotenv_pythons: "scripts_of (load_dotenv env) = []"
  by (simp add: load_dotenv_def)

lemma load_dotenv_stderr: "stderr_of (load_dotenv env) = []"
  by (simp add: load_dotenv_def)

lemma run_python_jobs_stderr:
  "stderr_of (run_python_jobs env)
     = (if python_exit env ''daily_intro.py'' \<noteq> 0
        then [''daily_intro.py encountered an error.''] else [])"
  by (simp add: run_python_jobs_def stderr_of_append)

lemma setup_ok_run:
  "setup_ok env \<Longrightarrow>
     run_jobs env =
       (Chdir (PROJECT_DIR (hd (args env))) # load_dotenv env
          @ [Source (activate_path (hd (args env)))] @ run_python_jobs env, 0)"
  by (simp add: setup_ok_def run_jobs_def Let_def)

lemma setup_failed_status: "\<not> setup_ok env \<Longrightarrow> snd (run_jobs env) = 1"
  by (auto simp: setup_ok_def run_jobs_def Let_def)

lemma setup_failed_pythons: "\<not> setup_ok env \<Longrightarrow> scripts_of (fst (run_jobs env)) = []"
  by (auto simp: setup_ok_def run_jobs_def Let_def load_dotenv_pythons scripts_of_append)

lemma setup_failed_stdout: "\<not> setup_ok env \<Longrightarrow> stdout_of (fst (run_jobs env)) \<noteq> []"
  by (auto simp: setup_ok_def run_jobs_def Let_def stdout_of_append)

text \<open>
  C6 as stated: when \<open>daily_intro.py\<close> fails, the error is logged and the overall process
  exits with a non-zero status. The wrapper does log the failure, but it goes on to its
  last \<open>echo\<close> and exits with status 0: with a complete setup and a Python script that
  exits with status 1, the exit status of the wrapper is 0.
\<close>

theorem C6_exit_status_counterexample:
  "python_exit env_python_fails ''daily_intro.py'' \<noteq> 0 \<and> exit_status env_python_fails = 0"
  by (simp add: exit_status_def run_jobs_def env_python_fails_def PROJECT_DIR_def
      activate_path_def Let_def)

text \<open>
  C6 as amended: when the setup checks pass and \<open>daily_intro.py\<close> exits with a non-zero
  status, the wrapper writes the line \<open>daily_intro.py encountered an error.\<close> to standard
  error, has started the script exactly once (no retry), and exits with status 0.
\<close>

theorem C6_failure_logged_exit_zero:
  assumes "setup_ok env" and "python_exit env ''daily_intro.py'' \<noteq> 0"
  shows "stderr_lines env = [''daily_intro.py encountered an error.'']
         \<and> python_runs env = [''daily_intro.py'']
         \<and> exit_status env = 0"
  using assms
  by (simp add: stderr_lines_def python_runs_def exit_status_def setup_ok_run
      scripts_of_append stderr_of_append load_dotenv_pythons load_dotenv_stderr run_python_jobs_pythons run_python_jobs_stderr)

theorem C6_failure_logged_exit_zero_witness:
  "setup_ok env_python_fails \<and> python_exit env_python_fails ''daily_intro.py'' \<noteq> 0
   \<and> stderr_lines env_python_fails = [''daily_intro.py encountered an error.'']
   \<and> python_runs env_python_fails = [''daily_intro.py'']
   \<and> exit_status env_python_fails = 0"
proof -
  have ok: "setup_ok env_python_fails"
    by (simp add: setup_ok_def env_python_fails_def PROJECT_DIR_def activate_path_def)
  have fails: "python_exit env_python_fails ''daily_intro.py'' \<noteq> 0"
    by (simp add: env_python_fails_def)
  from C6_failure_logged_exit_zero [OF ok fails] ok fails show ?thesis by simp
qed

text \<open>
  C7: without a username, or with a username whose project directory or activation file is
  missing, the wrapper prints a diagnostic, exits with status 1 and starts no Python
  script; when the three checks pass it runs \<open>daily_intro.py\<close> and exits with status 0.
  The exit status is 1 exactly for the setup failures, whatever the Python script returns.
\<close>

theorem C7_exit_status_setup_only:
  "(\<not> setup_ok env \<longrightarrow>
      exit_status env = 1 \<and> python_runs env = [] \<and> stdout_lines env \<noteq> [])
   \<and> (setup_ok env \<longrightarrow>
      exit_status env = 0 \<and> python_runs env = [''daily_intro.py''])
   \<and> (exit_status env = 1 \<longleftrightarrow> \<not> setup_ok env)"
proof -
  have bad: "exit_status env = 1 \<and> python_runs env = [] \<and> stdout_lines env \<noteq> []"
    if "\<not> setup_ok env"
    using that
    by (simp add: exit_status_def python_runs_def stdout_lines_def setup_failed_status
        setup_failed_pythons setup_failed_stdout)
  have good: "exit_status env = 0 \<and> python_runs env = [''daily_intro.py'']"
    if "setup_ok env"
    using that
    by (simp add: exit_status_def python_runs_def setup_ok_run scripts_of_append
        load_dotenv_pythons run_python_jobs_pythons)
  from bad good show ?thesis by (cases "setup_ok env") auto
qed

theorem C7_exit_status_setup_only_witness:
  "\<not> setup_ok env_no_username \<and> exit_status env_no_username = 1
   \<and> python_runs env_no_username = []
   \<and> stdout_lines env_no_username = [''Usage: ./run_jobs.sh <username>'']"
proof -
  have bad: "\<not> setup_ok env_no_username"
    by (simp add: setup_ok_def env_no_username_def)
  have out: "stdout_lines env_no_username = [''Usage: ./run_jobs.sh <username>'']"
    by (simp add: stdout_lines_def run_jobs_def env_no_username_def)
  from C7_exit_status_setup_only [of env_no_username] bad out show ?thesis by simp
qed

section \<open>Properties of the Effects Processor\<close>

subsection \<open>Ring modulation\<close>

lemma linspace_nth:
  "i < n \<Longrightarrow> sr \<noteq> 0 \<Longrightarrow> linspace 0 (real n / real_of_int sr) n ! i = real i / real_of_int sr"
  by (simp add: linspace_def)

lemma length_linspace: "length (linspace start stop num) = num"
  by (simp add: linspace_def)

lemma multiply_1d:
  "nd_shape y = [n] \<Longrightarrow> length (nd_data y) = n \<Longrightarrow> length c = n \<Longrightarrow>
   multiply y c = Inr (y\<lparr>nd_data := map (\<lambda>j. nd_data y ! j * c ! j) [0..<n]\<rparr>)"
  by (simp add: multiply_def)

lemma ring_modulation_1d:
  assumes "nd_shape y = [n]" and "length (nd_data y) = n" and "sr \<noteq> 0"
  shows "ring_modulation cfg y sr =
           Inr (y\<lparr>nd_data := map (\<lambda>i. nd_data y ! i
                  * sin (2 * pi * RING_MOD_FREQ cfg * (real i / real_of_int sr))) [0..<n]\<rparr>)"
proof -
  let ?t = "linspace 0 (real n / real_of_int sr) n"
  let ?carrier = "map (\<lambda>x. sin (2 * pi * RING_MOD_FREQ cfg * x)) ?t"
  have len: "len y = Inr n"
    using assms(1) by (simp add: len_def)
  have c: "length ?carrier = n"
    by (simp add: length_linspace)
  have "ring_modulation cfg y sr = multiply y ?carrier"
    using assms(3) len by (simp add: ring_modulation_def Let_def)
  also have "\<dots> = Inr (y\<lparr>nd_data := map (\<lambda>j. nd_data y ! j * ?carrier ! j) [0..<n]\<rparr>)"
    using assms(1,2) c by (rule multiply_1d)
  also have "map (\<lambda>j. nd_data y ! j * ?carrier ! j) [0..<n]
      = map (\<lambda>i. nd_data y ! i * sin (2 * pi * RING_MOD_FREQ cfg * (real i / real_of_int sr))) [0..<n]"
    using assms(3) by (simp add: length_linspace linspace_nth)
  finally show ?thesis .
qed

text \<open>
  C1: for a one-dimensional waveform of \<open>n\<close> samples and a sample rate \<open>sr\<close>, the
  ring-modulation cell, when enabled, returns and replaces the current waveform by one
  of the same shape and length whose \<open>i\<close>-th sample is the \<open>i\<close>-th input sample times
  \<open>sin (2 * pi * RING_MOD_FREQ * (i / sr))\<close>; nothing else in the state changes. The
  sample rate is not zero (a division by it would raise).
\<close>

theorem C1_ring_modulation:
  assumes "DO_RING_MOD cfg"
    and "nd_shape (st_y_current st) = [n]"
    and "length (nd_data (st_y_current st)) = n"
    and "st_sr st \<noteq> 0"
  shows "\<exists>out. ring_mod_cell cfg st = Inr (st\<lparr>st_y_current := out\<rparr>)
           \<and> nd_shape out = [n] \<and> length (nd_data out) = n
           \<and> (\<forall>i<n. nd_data out ! i =
                 nd_data (st_y_current st) ! i
                 * sin (2 * pi * RING_MOD_FREQ cfg * (real i / real_of_int (st_sr st))))"
proof -
  let ?y = "st_y_current st"
  let ?out = "?y\<lparr>nd_data := map (\<lambda>i. nd_data ?y ! i
                  * sin (2 * pi * RING_MOD_FREQ cfg * (real i / real_of_int (st_sr st)))) [0..<n]\<rparr>"
  have "ring_mod_cell cfg st = Inr (st\<lparr>st_y_current := ?out\<rparr>)"
    using assms by (simp add: ring_mod_cell_def ring_modulation_1d)
  moreover have "nd_shape ?out = [n]" "length (nd_data ?out) = n"
    using assms(2) by simp_all
  moreover have "\<forall>i<n. nd_data ?out ! i =
      nd_data ?y ! i * sin (2 * pi * RING_MOD_FREQ cfg * (real i / real_of_int (st_sr st)))"
    by simp
  ultimately show ?thesis by blast
qed

theorem C1_ring_modulation_witness:
  "DO_RING_MOD ring_config \<and> nd_shape (st_y_current ring_state) = [2]
   \<and> length (nd_data (st_y_current ring_state)) = 2 \<and> st_sr ring_state \<noteq> 0
   \<and> (\<exists>out. ring_mod_cell ring_config ring_state = Inr (ring_state\<lparr>st_y_current := out\<rparr>)
           \<and> nd_shape out = [2] \<and> length (nd_data out) = 2
           \<and> (\<forall>i<2. nd_data out ! i =
                 nd_data (st_y_current ring_state) ! i
                 * sin (2 * pi * RING_MOD_FREQ ring_config * (real i / real_of_int (st_sr ring_state)))))"
proof -
  have h1: "DO_RING_MOD ring_config"
    by (simp add: ring_config_def)
  have h2: "nd_shape (st_y_current ring_state) = [2]"
    by (simp add: ring_state_def array1_def)
  have h3: "length (nd_data (st_y_current ring_state)) = 2"
    by (simp add: ring_state_def array1_def)
  have h4: "st_sr ring_state \<noteq> 0"
    by (simp add: ring_state_def)
  from C1_ring_modulation [OF h1 h2 h3 h4] h1 h2 h3 h4 show ?thesis by blast
qed

subsection \<open>The cells in sequence and the table of effects\<close>

lemma and_then_assoc: "and_then (and_then m f) g = and_then m (\<lambda>x. and_then (f x) g)"
  by (cases m) (simp_all add: and_then_def)

lemma and_then_Inr_right: "and_then m Inr = m"
  by (cases m) (simp_all add: and_then_def)

lemma on_state_Nil: "on_state [] = Inr"
  by (rule ext) (simp add: on_state_def)

lemma on_state_Cons:
  "on_state ((en, eff) # rest) st =
     and_then (if en then case eff (st_y_current st) (st_sr st) of
                            Inl e \<Rightarrow> Inl e
                          | Inr v \<Rightarrow> Inr (st\<lparr>st_y_current := v\<rparr>)
               else Inr st) (on_state rest)"
  by (simp add: on_state_def and_then_def split: sum.splits)

lemma effect_cells_on_state: "effect_cells L cfg st = on_state (effects_table L cfg) st"
proof -
  have "on_state (effects_table L cfg) st =
      and_then (pitch_shift_cell L cfg st) (\<lambda>s1.
      and_then (ring_mod_cell cfg s1) (\<lambda>s2.
      and_then (bandpass_cell L cfg s2) (\<lambda>s3.
      and_then (flanger_cell L cfg s3) (\<lambda>s4.
      and_then (phaser_cell L cfg s4) Inr))))"
    unfolding effects_table_def on_state_Cons on_state_Nil
      pitch_shift_cell_def ring_mod_cell_def bandpass_cell_def flanger_cell_def phaser_cell_def
    by (rule refl)
  also have "\<dots> = effect_cells L cfg st"
    by (simp only: effect_cells_def and_then_assoc and_then_Inr_right)
  finally show ?thesis by simp
qed

lemma vocoder_chain:
  "vocoder L cfg =
     (case librosa_load L input_path of
        Inl e \<Rightarrow> Inl e
      | Inr (y, sr) \<Rightarrow>
          (case apply_enabled (effects_table L cfg) sr y of
             Inl e \<Rightarrow> Inl e
           | Inr w \<Rightarrow> Inr \<lparr>st_y = y, st_sr = sr, st_y_current = w,
                           st_written = [(OUTPUT_FILE cfg, w, sr)]\<rparr>))"
proof (cases "librosa_load L input_path")
  case (Inl e)
  then show ?thesis
    by (simp add: vocoder_def load_cell_def and_then_def)
next
  case (Inr p)
  obtain y sr where p: "p = (y, sr)" by (cases p)
  let ?st = "\<lparr>st_y = y, st_sr = sr, st_y_current = y, st_written = []\<rparr>"
  have load: "load_cell L = Inr ?st"
    using Inr p by (simp add: load_cell_def)
  have "vocoder L cfg = and_then (on_state (effects_table L cfg) ?st) (write_cell cfg)"
    by (simp add: vocoder_def load and_then_def effect_cells_on_state)
  also have "\<dots> = (case apply_enabled (effects_table L cfg) sr y of
             Inl e \<Rightarrow> Inl e
           | Inr w \<Rightarrow> Inr \<lparr>st_y = y, st_sr = sr, st_y_current = w,
                           st_written = [(OUTPUT_FILE cfg, w, sr)]\<rparr>)"
    by (simp add: on_state_def and_then_def write_cell_def split: sum.splits)
  finally show ?thesis using Inr p by simp
qed

lemma squeeze_expand_dims: "squeeze (expand_dims a) = Inr a"
  by (simp add: squeeze_def expand_dims_def)

lemma sample_load: "librosa_load sample_libs input_path = Inr (array1 [1, 2, 3, 4], 8)"
  by (simp add: sample_libs_def)

lemma sample_run: "vocoder sample_libs notebook_config = Inr sample_final"
  by (simp add: vocoder_chain sample_load effects_table_def sample_final_def)
    (simp add: sample_libs_def notebook_config_def flanger_def phaser_def squeeze_expand_dims)



text \<open>
  C3: when the notebook runs to its end, the sample rate in the state is the one the
  decoder returned, and the one call to \<open>sf.write\<close> is made with that sample rate.
\<close>

theorem C3_sample_rate_preserved:
  assumes "vocoder L cfg = Inr st"
  shows "\<exists>y sr w. librosa_load L input_path = Inr (y, sr) \<and> st_sr st = sr
           \<and> st_written st = [(OUTPUT_FILE cfg, w, sr)]"
  using assms unfolding vocoder_chain
  by (auto split: sum.splits prod.splits)

theorem C3_sample_rate_preserved_witness:
  "vocoder sample_libs notebook_config = Inr sample_final
   \<and> (\<exists>y sr w. librosa_load sample_libs input_path = Inr (y, sr) \<and> st_sr sample_final = sr
         \<and> st_written sample_final = [(OUTPUT_FILE notebook_config, w, sr)])"
  using C3_sample_rate_preserved [OF sample_run] sample_run by simp

text \<open>
  C10 as stated: with the five toggles off, the samples written to the output file equal
  the decoded samples one by one. The array handed to \<open>sf.write\<close> is the decoded one,
  but the file holds 16-bit integers: for the decoded samples \<open>2^-17\<close>, \<open>1/2\<close>, \<open>-1/4\<close>
  it holds \<open>0\<close>, \<open>16384\<close>, \<open>-8192\<close>, which stand for \<open>0\<close>, \<open>1/2\<close>, \<open>-1/4\<close>. The first
  sample is lost.
\<close>

theorem C10_file_samples_counterexample:
  "vocoder quiet_libs all_off_config = Inr quiet_final
   \<and> output_files quiet_final =
       [(''corporate_voice.wav'',
         \<lparr>wav_samplerate = 44100, wav_subtype = ''PCM_16'', wav_frames = [0, 16384, - 8192]\<rparr>)]
   \<and> nd_data (st_y quiet_final) = [1 / 131072, 1 / 2, - 1 / 4]
   \<and> map (file_samples \<circ> snd) (output_files quiet_final) = [[0, 1 / 2, - 1 / 4]]
   \<and> map (file_samples \<circ> snd) (output_files quiet_final) \<noteq> [nd_data (st_y quiet_final)]"
proof -
  have run: "vocoder quiet_libs all_off_config = Inr quiet_final"
    by (simp add: vocoder_chain effects_table_def quiet_libs_def all_off_config_def
        notebook_config_def quiet_final_def)
  have enc: "map pcm16 [1 / 131072, 1 / 2, - 1 / 4] = [0, 16384, - 8192]"
    by (simp add: pcm16_def Let_def)
  have files: "output_files quiet_final =
      [(''corporate_voice.wav'',
        \<lparr>wav_samplerate = 44100, wav_subtype = ''PCM_16'', wav_frames = [0, 16384, - 8192]\<rparr>)]"
    using enc by (simp add: output_files_def quiet_final_def wav_content_def array1_def)
  have y: "nd_data (st_y quiet_final) = [1 / 131072, 1 / 2, - 1 / 4]"
    by (simp add: quiet_final_def array1_def)
  have samples: "map (file_samples \<circ> snd) (output_files quiet_final) = [[0, 1 / 2, - 1 / 4]]"
    by (simp add: files file_samples_def pcm16_value_def)
  from run files y samples show ?thesis by simp
qed

text \<open>
  C10 as amended: with the five toggles off, the notebook hands to \<open>sf.write\<close> exactly the
  samples the decoder returned, with the decoder's sample rate, and the current waveform
  is the decoded one. The output file carries that sample rate and holds, sample by
  sample, the 16-bit PCM encoding of the decoded samples.
\<close>

theorem C10_all_off_passes_waveform:
  assumes "librosa_load L input_path = Inr (y, sr)"
    and "\<not> DO_PITCH_SHIFT cfg" and "\<not> DO_RING_MOD cfg" and "\<not> DO_BANDPASS cfg"
    and "\<not> DO_FLANGER cfg" and "\<not> DO_PHASER cfg"
  shows "vocoder L cfg =
           Inr \<lparr>st_y = y, st_sr = sr, st_y_current = y,
                st_written = [(OUTPUT_FILE cfg, y, sr)]\<rparr>
         \<and> output_files \<lparr>st_y = y, st_sr = sr, st_y_current = y,
                st_written = [(OUTPUT_FILE cfg, y, sr)]\<rparr> =
             [(OUTPUT_FILE cfg,
               \<lparr>wav_samplerate = sr, wav_subtype = ''PCM_16'',
                wav_frames = map pcm16 (nd_data y)\<rparr>)]"
  using assms by (simp add: vocoder_chain effects_table_def output_files_def wav_content_def)

theorem C10_all_off_passes_waveform_witness:
  "vocoder sample_libs all_off_config =
     Inr \<lparr>st_y = array1 [1, 2, 3, 4], st_sr = 8, st_y_current = array1 [1, 2, 3, 4],
          st_written = [(''corporate_voice.wav'', array1 [1, 2, 3, 4], 8)]\<rparr>
   \<and> output_files \<lparr>st_y = array1 [1, 2, 3, 4], st_sr = 8, st_y_current = array1 [1, 2, 3, 4],
          st_written = [(''corporate_voice.wav'', array1 [1, 2, 3, 4], 8)]\<rparr> =
       [(''corporate_voice.wav'',
         \<lparr>wav_samplerate = 8, wav_subtype = ''PCM_16'',
          wav_frames = [32767, 32767, 32767, 32767]\<rparr>)]"
proof -
  have off: "\<not> DO_PITCH_SHIFT all_off_config" "\<not> DO_RING_MOD all_off_config"
    "\<not> DO_BANDPASS all_off_config" "\<not> DO_FLANGER all_off_config" "\<not> DO_PHASER all_off_config"
    by (simp_all add: all_off_config_def notebook_config_def)
  have enc: "map pcm16 (nd_data (array1 [1, 2, 3, 4])) = [32767, 32767, 32767, 32767]"
    by (simp add: array1_def pcm16_def Let_def)
  from C10_all_off_passes_waveform [OF sample_load off] enc show ?thesis
    by (simp add: all_off_config_def notebook_config_def)
qed

subsection \<open>The bandpass filter\<close>

lemma length_lfilter_run: "length (lfilter_run b a xh yh xs) = length xs"
  by (induction xs arbitrary: xh yh) (simp_all add: Let_def)

lemma take_lfilter_run:
  "take k (lfilter_run b a xh yh xs) = lfilter_run b a xh yh (take k xs)"
proof (induction xs arbitrary: k xh yh)
  case Nil
  then show ?case by simp
next
  case (Cons x xs)
  then show ?case by (cases k) (simp_all add: Let_def)
qed

lemma chunks_whole: "length xs = n \<Longrightarrow> concat (map f (chunks n xs)) = (if xs = [] then [] else f xs)"
  by (auto simp: chunks.simps [of n xs] chunks.simps [of n "[]"])

lemma lfilter_1d_Nil: "lfilter_1d b a [] = []"
  by (simp add: lfilter_1d_def)

lemma lfilter_array1:
  assumes "b \<noteq> []" and "a \<noteq> []" and "hd a \<noteq> 0"
    and "nd_shape x = [n]" and "length (nd_data x) = n"
  shows "lfilter b a x = Inr (x\<lparr>nd_data := lfilter_1d b a (nd_data x)\<rparr>)"
  using assms by (simp add: lfilter_def chunks_whole lfilter_1d_Nil)

lemma lfilter_shape: "lfilter b a x = Inr v \<Longrightarrow> nd_shape v = nd_shape x"
  by (auto simp: lfilter_def split: if_splits)

lemma lfilter_run_nth:
  assumes "hd a \<noteq> 0" and "i < length xs"
  shows "hd a * lfilter_run b a xh yh xs ! i =
           dot b (rev (take (Suc i) xs) @ xh)
           - dot (tl a) (rev (take i (lfilter_run b a xh yh xs)) @ yh)"
  using assms(2)
proof (induction xs arbitrary: i xh yh)
  case Nil
  then show ?case by simp
next
  case (Cons x xs)
  show ?case
  proof (cases i)
    case 0
    then show ?thesis using assms(1) by (simp add: Let_def)
  next
    case (Suc j)
    with Cons.prems have j: "j < length xs" by simp
    let ?yn = "(dot b (x # xh) - dot (tl a) yh) / hd a"
    from Cons.IH [OF j, of "x # xh" "?yn # yh"] Suc show ?thesis
      by (simp add: Let_def)
  qed
qed

lemma lfilter_1d_nth:
  assumes "hd a \<noteq> 0" and "i < length xs"
  shows "hd a * lfilter_1d b a xs ! i =
           dot b (rev (take (Suc i) xs)) - dot (tl a) (rev (take i (lfilter_1d b a xs)))"
  using lfilter_run_nth [OF assms, of b "[]" "[]"] by (simp add: lfilter_1d_def)

text \<open>
  C5: for a sample rate \<open>fs\<close> other than zero, \<open>bandpass_filter\<close> asks \<open>butter\<close> for a
  filter of order 4 of type \<open>band\<close> with the edges \<open>lowcut / (0.5 * fs)\<close> and
  \<open>highcut / (0.5 * fs)\<close>; when \<open>butter\<close> returns coefficients \<open>b\<close>, \<open>a\<close> with a leading
  \<open>a\<close> coefficient other than zero, the result on a one-dimensional waveform of \<open>n\<close>
  samples is the direct-form filter \<open>lfilter\<close> of the waveform: it has \<open>n\<close> samples,
  its first \<open>k\<close> samples depend on the first \<open>k\<close> input samples only (one forward pass, no
  zero-phase correction), and every output sample satisfies the difference equation
  \<open>a[0]*y[i] = b[0]*x[i] + ... + b[M]*x[i-M] - a[1]*y[i-1] - ... - a[N]*y[i-N]\<close>, where
  samples before the start count as zero. The bandpass cell calls it with the two configured cutoffs.
\<close>

theorem C5_bandpass_filter:
  assumes "fs \<noteq> 0"
    and "butter L 4 [lowcut / (0.5 * real_of_int fs), highcut / (0.5 * real_of_int fs)] ''band''
           = Inr (b, a)"
    and "b \<noteq> []" and "a \<noteq> []" and "hd a \<noteq> 0"
    and "nd_shape dat = [n]" and "length (nd_data dat) = n"
  shows "bandpass_filter L dat lowcut highcut fs 4
           = Inr (dat\<lparr>nd_data := lfilter_1d b a (nd_data dat)\<rparr>)
         \<and> length (lfilter_1d b a (nd_data dat)) = n
         \<and> (\<forall>k. take k (lfilter_1d b a (nd_data dat)) = lfilter_1d b a (take k (nd_data dat)))
         \<and> (\<forall>i<n. hd a * lfilter_1d b a (nd_data dat) ! i =
                 dot b (rev (take (Suc i) (nd_data dat)))
                 - dot (tl a) (rev (take i (lfilter_1d b a (nd_data dat)))))
         \<and> bandpass L cfg dat fs
             = bandpass_filter L dat (BANDPASS_LOW cfg) (BANDPASS_HIGH cfg) fs 4"
proof -
  have "bandpass_filter L dat lowcut highcut fs 4 = lfilter b a dat"
    using assms(1,2) by (simp add: bandpass_filter_def Let_def)
  then have "bandpass_filter L dat lowcut highcut fs 4
      = Inr (dat\<lparr>nd_data := lfilter_1d b a (nd_data dat)\<rparr>)"
    using assms(3-7) by (simp add: lfilter_array1)
  moreover have "length (lfilter_1d b a (nd_data dat)) = n"
    using assms(7) by (simp add: lfilter_1d_def length_lfilter_run)
  moreover have "\<forall>k. take k (lfilter_1d b a (nd_data dat)) = lfilter_1d b a (take k (nd_data dat))"
    by (simp add: lfilter_1d_def take_lfilter_run)
  moreover have "\<forall>i<n. hd a * lfilter_1d b a (nd_data dat) ! i =
      dot b (rev (take (Suc i) (nd_data dat)))
      - dot (tl a) (rev (take i (lfilter_1d b a (nd_data dat))))"
    using assms(5,7) by (simp add: lfilter_1d_nth)
  moreover have "bandpass L cfg dat fs
      = bandpass_filter L dat (BANDPASS_LOW cfg) (BANDPASS_HIGH cfg) fs 4"
    by (simp add: bandpass_def)
  ultimately show ?thesis by blast
qed

theorem C5_bandpass_filter_witness:
  "bandpass_filter sample_libs (array1 [1, 2, 3, 4]) 300 5000 44100 4
     = Inr (array1 [1/2, 3/2, 5/2, 7/2])"
proof -
  have h1: "(44100::int) \<noteq> 0" by simp
  have h2: "butter sample_libs 4 [300 / (0.5 * real_of_int 44100), 5000 / (0.5 * real_of_int 44100)] ''band''
      = Inr ([1/2, 1/2], [1])"
    by (simp add: sample_libs_def)
  have h3: "[1/2, 1/2] \<noteq> ([]::real list)" "[1] \<noteq> ([]::real list)" "hd [1] \<noteq> (0::real)"
    by simp_all
  have h4: "nd_shape (array1 [1, 2, 3, 4]) = [4]" "length (nd_data (array1 [1, 2, 3, 4])) = 4"
    by (simp_all add: array1_def)
  from C5_bandpass_filter [OF h1 h2 h3 h4] show ?thesis
    by (simp add: array1_def lfilter_1d_def Let_def)
qed

subsection \<open>The number of axes\<close>

lemma ring_modulation_ndim:
  assumes "ring_modulation cfg y sr = Inr v" and "ndim y = 1"
  shows "ndim v = 1"
proof -
  obtain n where n: "nd_shape y = [n]"
    using assms(2) by (cases "nd_shape y") (simp_all add: ndim_def)
  have "len y = Inr n" using n by (simp add: len_def)
  with assms(1) n show ?thesis
    by (auto simp: ring_modulation_def Let_def multiply_def linspace_def ndim_def split: if_splits)
qed

lemma bandpass_ndim: "bandpass L cfg y sr = Inr v \<Longrightarrow> ndim v = ndim y"
  by (auto simp: bandpass_def bandpass_filter_def Let_def ndim_def
      split: if_splits sum.splits prod.splits dest: lfilter_shape)

lemma squeeze_ndim: "squeeze p = Inr v \<Longrightarrow> ndim p = Suc (ndim v)"
  by (auto simp: squeeze_def ndim_def split: list.splits if_splits)

lemma expand_dims_ndim: "ndim (expand_dims y) = Suc (ndim y)"
  by (simp add: expand_dims_def ndim_def)

lemma flanger_ndim:
  assumes "keeps_ndim L" and "flanger L cfg y sr = Inr v"
  shows "ndim v = ndim y"
proof -
  from assms(2) obtain p where p: "Pedalboard L
      [Chorus (FLANGER_RATE cfg) (FLANGER_DEPTH cfg) (FLANGER_CENTRE_DELAY_MS cfg)
         (FLANGER_FEEDBACK cfg) (FLANGER_MIX cfg)] (expand_dims y) sr = Inr p"
    and sq: "squeeze p = Inr v"
    by (auto simp: flanger_def Let_def split: sum.splits)
  from assms(1) p have "ndim p = ndim (expand_dims y)"
    unfolding keeps_ndim_def by blast
  with squeeze_ndim [OF sq] show ?thesis by (simp add: expand_dims_ndim)
qed

lemma phaser_ndim:
  assumes "keeps_ndim L" and "phaser L cfg y sr = Inr v"
  shows "ndim v = ndim y"
proof -
  from assms(2) obtain p where p: "Pedalboard L
      [Phaser (PHASER_RATE cfg) (PHASER_DEPTH cfg) (PHASER_MIX cfg)] (expand_dims y) sr = Inr p"
    and sq: "squeeze p = Inr v"
    by (auto simp: phaser_def Let_def split: sum.splits)
  from assms(1) p have "ndim p = ndim (expand_dims y)"
    unfolding keeps_ndim_def by blast
  with squeeze_ndim [OF sq] show ?thesis by (simp add: expand_dims_ndim)
qed

lemma pitch_shifting_ndim:
  "keeps_ndim L \<Longrightarrow> pitch_shifting L cfg y sr = Inr v \<Longrightarrow> ndim v = ndim y"
  unfolding keeps_ndim_def pitch_shifting_def by blast

lemma apply_enabled_mono:
  assumes "\<forall>(en, eff) \<in> set tbl. \<forall>w v. eff w sr = Inr v \<longrightarrow> ndim w = 1 \<longrightarrow> ndim v = 1"
    and "apply_enabled tbl sr w = Inr v" and "ndim w = 1"
  shows "ndim v = 1"
  using assms
proof (induction tbl arbitrary: w)
  case Nil
  then show ?case by simp
next
  case (Cons p tbl)
  obtain en eff where p: "p = (en, eff)" by (cases p)
  show ?case
  proof (cases en)
    case True
    with Cons.prems(2) p obtain w' where w': "eff w sr = Inr w'"
      and rest: "apply_enabled tbl sr w' = Inr v"
      by (auto split: sum.splits)
    from Cons.prems(1) p w' Cons.prems(3) have "ndim w' = 1" by auto
    with Cons.IH rest Cons.prems(1) show ?thesis by auto
  next
    case False
    with Cons.prems(2) p have "apply_enabled tbl sr w = Inr v" by simp
    with Cons.IH Cons.prems(1,3) show ?thesis by auto
  qed
qed

lemma effects_table_mono:
  assumes "keeps_ndim L"
  shows "\<forall>(en, eff) \<in> set (effects_table L cfg).
           \<forall>w v. eff w sr = Inr v \<longrightarrow> ndim w = 1 \<longrightarrow> ndim v = 1"
  using assms
  by (auto simp: effects_table_def dest: pitch_shifting_ndim ring_modulation_ndim
      bandpass_ndim flanger_ndim phaser_ndim)


text \<open>
  C4: when the library calls return arrays with as many axes as they were given, the
  decoded waveform is one-dimensional and the notebook runs to its end, the waveform
  handed to \<open>sf.write\<close> is one-dimensional.
\<close>

theorem C4_output_mono:
  assumes "keeps_ndim L" and "librosa_load L input_path = Inr (y, sr)" and "ndim y = 1"
    and "vocoder L cfg = Inr st"
  shows "\<exists>w. st_written st = [(OUTPUT_FILE cfg, w, sr)] \<and> ndim w = 1"
proof -
  from assms(2,4) obtain w where run: "apply_enabled (effects_table L cfg) sr y = Inr w"
    and written: "st_written st = [(OUTPUT_FILE cfg, w, sr)]"
    by (auto simp: vocoder_chain split: sum.splits)
  from effects_table_mono [OF assms(1)] run assms(3) have "ndim w = 1"
    by (rule apply_enabled_mono)
  with written show ?thesis by blast
qed

theorem C4_output_mono_witness:
  "keeps_ndim sample_libs \<and> ndim (array1 [1, 2, 3, 4]) = 1
   \<and> (\<exists>w. st_written sample_final = [(OUTPUT_FILE notebook_config, w, 8)] \<and> ndim w = 1)"
proof -
  have k: "keeps_ndim sample_libs"
    by (simp add: keeps_ndim_def sample_libs_def)
  have n: "ndim (array1 [1, 2, 3, 4]) = 1"
    by (simp add: ndim_def array1_def)
  from C4_output_mono [OF k sample_load n sample_run] k n show ?thesis by blast
qed

end
